theory Spec2Isabelle
  imports Complex_Main
begin

section \<open>Tensors\<close>

text \<open>
  The layer of \<^verbatim>\<open>src/gemma/lora.py\<close> works on two-dimensional tensors. A tensor is
  modelled as the list of its rows and its entries as real numbers, so every equation
  below is one of exact arithmetic: rounding, element types (int8 against float) and
  the gradient flags of the tensor library are not part of the model. A tensor of
  shape \<open>[n]\<close> or \<open>[n, 1]\<close> is the list of its \<open>n\<close> entries.

  The operations are total functions on lists. They agree with the library on the
  shapes the constructor establishes. A shape mismatch, which the library reports as a
  runtime error, is not modelled: a theorem that depends on shapes states them as
  hypotheses, and the concrete tensors below have the shapes of their layers.
\<close>

type_synonym vec = "real list"
type_synonym tensor = "real list list"

definition has_shape :: "nat \<Rightarrow> nat \<Rightarrow> tensor \<Rightarrow> bool" where
  "has_shape r c t = (length t = r \<and> list_all (\<lambda>row. length row = c) t)"

definition zeros :: "nat \<Rightarrow> nat \<Rightarrow> tensor" where
  \<comment> \<open>\<^verbatim>\<open>torch.zeros((r, c))\<close>\<close>
  "zeros r c = replicate r (replicate c 0)"

definition mul_unsqueeze :: "tensor \<Rightarrow> vec \<Rightarrow> tensor" where
  \<comment> \<open>\<^verbatim>\<open>weight * quantizer.unsqueeze(-1)\<close>: row \<open>i\<close> is multiplied by entry \<open>i\<close>\<close>
  "mul_unsqueeze w q = map2 (\<lambda>row s. map (\<lambda>v. v * s) row) w q"

definition dot :: "vec \<Rightarrow> vec \<Rightarrow> real" where
  "dot u v = sum_list (map2 (*) u v)"

definition ncols :: "tensor \<Rightarrow> nat" where
  "ncols t = (case t of [] \<Rightarrow> 0 | row # _ \<Rightarrow> length row)"

definition col :: "tensor \<Rightarrow> nat \<Rightarrow> vec" where
  "col t j = map (\<lambda>row. row ! j) t"

definition matmul :: "tensor \<Rightarrow> tensor \<Rightarrow> tensor" where
  \<comment> \<open>\<^verbatim>\<open>torch.matmul(b, a)\<close>: entry \<open>(i, j)\<close> is row \<open>i\<close> of \<open>b\<close> times column \<open>j\<close> of \<open>a\<close>\<close>
  "matmul b a = map (\<lambda>brow. map (\<lambda>j. dot brow (col a j)) [0..<ncols a]) b"

definition add_t :: "tensor \<Rightarrow> tensor \<Rightarrow> tensor" where
  "add_t u v = map2 (map2 (+)) u v"

definition scalar_mul :: "real \<Rightarrow> tensor \<Rightarrow> tensor" where
  "scalar_mul s t = map (map (\<lambda>v. s * v)) t"

definition norm2 :: "vec \<Rightarrow> real" where
  "norm2 row = sqrt (sum_list (map (\<lambda>v. v * v) row))"

definition norm_dim1 :: "tensor \<Rightarrow> vec" where
  \<comment> \<open>\<^verbatim>\<open>t.norm(p=2, dim=1, keepdim=True)\<close>: the L2 norm of every row\<close>
  "norm_dim1 t = map norm2 t"

definition div_rows :: "tensor \<Rightarrow> vec \<Rightarrow> tensor" where
  \<comment> \<open>a tensor \<open>[r, c]\<close> divided by one of shape \<open>[r, 1]\<close>\<close>
  "div_rows t d = map2 (\<lambda>row s. map (\<lambda>v. v / s) row) t d"

definition mul_rows :: "vec \<Rightarrow> tensor \<Rightarrow> tensor" where
  \<comment> \<open>a tensor of shape \<open>[r, 1]\<close> times one of shape \<open>[r, c]\<close>\<close>
  "mul_rows d t = map2 (\<lambda>s row. map (\<lambda>v. s * v) row) d t"

definition linear :: "tensor \<Rightarrow> tensor \<Rightarrow> tensor" where
  \<comment> \<open>\<^verbatim>\<open>F.linear(x, weight)\<close>, that is \<open>x\<close> times the transpose of \<open>weight\<close>, for
     \<open>x\<close> of shape \<open>[batch, in_features]\<close>\<close>
  "linear x w = map (\<lambda>xrow. map (\<lambda>wrow. dot xrow wrow) w) x"


section \<open>The layers\<close>

datatype error = ZeroDivisionError | AttributeError | RuntimeError | ValueError

text \<open>
  An attribute that the code creates only on some paths, tests with \<^verbatim>\<open>hasattr\<close> or
  \<^verbatim>\<open>getattr(.., None)\<close> and removes with \<^verbatim>\<open>delattr\<close> is an optional field.

  The base class \<^verbatim>\<open>gemma.model.Linear\<close> is not in \<^verbatim>\<open>src/\<close>. Its record has the attributes
  that \<^verbatim>\<open>lora.py\<close> reads from it: the two sizes, the quantization flag, the weight
  and, when quantized, the weight scaler.
\<close>

record Linear =
  in_features :: nat
  out_features :: nat
  quant :: bool
  weight :: tensor
  weight_scaler :: "vec option"

record LinearWithLoRA = Linear +
  lora_rank :: int
  lora_scaler :: real
  weight_a :: "tensor option"
  weight_b :: "tensor option"
  weight_a_scaler :: "vec option"
  weight_b_scaler :: "vec option"
  m :: vec
  dora :: bool

text \<open>
  What the library leaves in the tensors that a constructor allocates without giving
  them a value: \<^verbatim>\<open>torch.empty\<close> and \<^verbatim>\<open>torch.Tensor(n)\<close> return whatever the memory
  held, and \<^verbatim>\<open>nn.init.normal_\<close> draws \<^verbatim>\<open>weight_a\<close> at random. They are parameters of
  the model: the weight and the weight scaler of the base constructor, and \<^verbatim>\<open>weight_a\<close>.
\<close>

record fresh =
  new_weight :: tensor
  new_weight_scaler :: vec
  new_weight_a :: tensor


definition Linear_init :: "fresh \<Rightarrow> nat \<Rightarrow> nat \<Rightarrow> bool \<Rightarrow> Linear" where
  \<comment> \<open>Modelled from the spec: the constructor of \<^verbatim>\<open>gemma.model.Linear\<close>, which is not in
     \<^verbatim>\<open>src/\<close>: it allocates the frozen weight and, when quantized, its scaler.\<close>
  "Linear_init fr i o' q =
     \<lparr>in_features = i, out_features = o', quant = q, weight = new_weight fr,
      weight_scaler = (if q then Some (new_weight_scaler fr) else None)\<rparr>"


definition LinearWithLoRA_init ::
  "fresh \<Rightarrow> nat \<Rightarrow> nat \<Rightarrow> int \<Rightarrow> real \<Rightarrow> bool \<Rightarrow> bool \<Rightarrow> error + LinearWithLoRA" where
  \<comment> \<open>\<^verbatim>\<open>LinearWithLoRA.__init__(in_features, out_features, lora_rank, lora_scaler,
     use_dora, quant)\<close>, statement by statement. Line 32 divides by the rank and raises
     for rank 0. With \<^verbatim>\<open>quant\<close>, line 36 wraps a tensor of int8 entries in
     \<^verbatim>\<open>nn.Parameter\<close>, whose \<^verbatim>\<open>requires_grad\<close> is true by default: the library
     refuses it with a \<^verbatim>\<open>RuntimeError\<close>, so no quantized layer is ever constructed.
     Without \<^verbatim>\<open>quant\<close>, a negative rank is refused by the allocation of
     \<^verbatim>\<open>weight_a\<close> (line 45), and line 47 divides by \<^verbatim>\<open>in_features\<close>. The magnitude
     \<open>m\<close> is taken from the weight the base constructor has just allocated.\<close>
  "LinearWithLoRA_init fr i o' rank scaler use_dora q =
     (if rank = 0 then Inl ZeroDivisionError
      else if q then Inl RuntimeError
      else if rank < 0 then Inl RuntimeError
      else if i = 0 then Inl ZeroDivisionError
      else Inr (Linear.extend (Linear_init fr i o' q)
        (LinearWithLoRA.fields rank (scaler / real_of_int rank)
           (Some (new_weight_a fr)) (Some (zeros o' (nat rank))) None None
           (norm_dim1 (new_weight fr)) use_dora)))"

definition weight_quantizer :: "'a Linear_scheme \<Rightarrow> vec option" where
  "weight_quantizer L = weight_scaler L"

definition weight_a_quantizer :: "LinearWithLoRA \<Rightarrow> vec option" where
  "weight_a_quantizer L = weight_a_scaler L"

definition weight_b_quantizer :: "LinearWithLoRA \<Rightarrow> vec option" where
  "weight_b_quantizer L = weight_b_scaler L"

definition quantize_weight :: "'a Linear_scheme \<Rightarrow> tensor \<Rightarrow> vec option \<Rightarrow> tensor" where
  \<comment> \<open>\<^verbatim>\<open>_quantize_weight(weight, quantizer)\<close>, the value returned\<close>
  "quantize_weight L w quantizer =
     (if quant L \<and> quantizer \<noteq> None then mul_unsqueeze w (the quantizer) else w)"

definition quantize_weight_same :: "'a Linear_scheme \<Rightarrow> vec option \<Rightarrow> bool" where
  \<comment> \<open>whether \<^verbatim>\<open>_quantize_weight\<close> returns the very tensor object it was given (its
     second \<^verbatim>\<open>return\<close>) rather than a new tensor (its first)\<close>
  "quantize_weight_same L quantizer = (\<not> (quant L \<and> quantizer \<noteq> None))"

definition apply_dora :: "LinearWithLoRA \<Rightarrow> tensor \<Rightarrow> tensor \<Rightarrow> tensor" where
  "apply_dora L w lora_weight =
     (let directional_numerator = add_t w (scalar_mul (lora_scaler L) lora_weight);
          directional_denominator = norm_dim1 directional_numerator;
          directional_component = div_rows directional_numerator directional_denominator
      in mul_rows (m L) directional_component)"

definition lora_weight_of :: "LinearWithLoRA \<Rightarrow> tensor \<Rightarrow> tensor \<Rightarrow> tensor" where
  \<comment> \<open>the three lines shared by \<^verbatim>\<open>forward\<close> and \<^verbatim>\<open>merge_lora\<close>\<close>
  "lora_weight_of L a b =
     matmul (quantize_weight L b (weight_b_quantizer L))
            (quantize_weight L a (weight_a_quantizer L))"

definition forward :: "LinearWithLoRA \<Rightarrow> tensor \<Rightarrow> tensor \<times> LinearWithLoRA" where
  \<comment> \<open>\<^verbatim>\<open>forward(x)\<close>: the output and the layer as the call leaves it. The local
     \<^verbatim>\<open>weight\<close> is the stored tensor itself when \<^verbatim>\<open>_quantize_weight\<close> returns its
     argument, and then \<^verbatim>\<open>weight += lora_weight\<close> adds into the stored tensor.\<close>
  "forward L x =
     (let w = quantize_weight L (weight L) (weight_quantizer L);
          lora_weight = (case (weight_a L, weight_b L) of
                           (Some a, Some b) \<Rightarrow> Some (lora_weight_of L a b)
                         | _ \<Rightarrow> None)
      in case lora_weight of
           None \<Rightarrow> (linear x w, L)
         | Some lw \<Rightarrow>
             if dora L then (linear x (apply_dora L w lw), L)
             else (linear x (add_t w lw),
                   if quantize_weight_same L (weight_quantizer L)
                   then L\<lparr>weight := add_t w lw\<rparr> else L))"

definition merge_lora :: "LinearWithLoRA \<Rightarrow> error option \<times> LinearWithLoRA" where
  \<comment> \<open>\<^verbatim>\<open>merge_lora()\<close>: the exception raised, if any, and the layer as the call leaves
     it. Reading or deleting an attribute that is absent raises \<^verbatim>\<open>AttributeError\<close>,
     and the statements before it have taken effect.\<close>
  "merge_lora L =
     (if lora_rank L > 0 then
        (case weight_a L of
           None \<Rightarrow> (Some AttributeError, L)
         | Some a \<Rightarrow>
        (case weight_b L of
           None \<Rightarrow> (Some AttributeError, L)
         | Some b \<Rightarrow>
           let lw = lora_weight_of L a b;
               L1 = (if dora L then L\<lparr>weight := apply_dora L (weight L) lw\<rparr>
                     else L\<lparr>weight := add_t (weight L) lw\<rparr>);
               L2 = L1\<lparr>weight_a := None, weight_b := None\<rparr>
           in if weight_a_scaler L2 = None then (Some AttributeError, L2)
              else if weight_b_scaler L2 = None
                then (Some AttributeError, L2\<lparr>weight_a_scaler := None\<rparr>)
              else (None, L2\<lparr>weight_a_scaler := None, weight_b_scaler := None,
                                lora_rank := 0\<rparr>)))
      else (None, L))"

definition enable_dora :: "LinearWithLoRA \<Rightarrow> LinearWithLoRA" where
  "enable_dora L = L\<lparr>dora := True\<rparr>"


section \<open>The module graph\<close>

text \<open>
  The host model is a tree of module objects. Every object carries its identity (a
  number, as \<^verbatim>\<open>id\<close> gives in the source language), which is what \<^verbatim>\<open>is\<close> and
  \<^verbatim>\<open>list.index\<close> compare. An object is a \<^verbatim>\<open>Linear\<close>, a \<^verbatim>\<open>LinearWithLoRA\<close> (a subclass of
  \<^verbatim>\<open>Linear\<close>), or any other module with its dictionary \<^verbatim>\<open>_modules\<close> of named
  children, kept in insertion order. The two linear classes have no children.
\<close>

datatype module =
    Linear_obj nat Linear
  | LinearWithLoRA_obj nat LinearWithLoRA
  | Module_obj nat "(string \<times> module) list"

fun oid :: "module \<Rightarrow> nat" where
  "oid (Linear_obj i l) = i"
| "oid (LinearWithLoRA_obj i l) = i"
| "oid (Module_obj i cs) = i"

fun modules_of :: "module \<Rightarrow> (string \<times> module) list" where
  \<comment> \<open>\<^verbatim>\<open>module._modules.items()\<close>\<close>
  "modules_of (Module_obj i cs) = cs"
| "modules_of (Linear_obj i l) = []"
| "modules_of (LinearWithLoRA_obj i l) = []"

fun isinstance_Linear :: "module \<Rightarrow> bool" where
  \<comment> \<open>\<^verbatim>\<open>isinstance(module, Linear)\<close>: true of an object of a subclass too\<close>
  "isinstance_Linear (Linear_obj i l) = True"
| "isinstance_Linear (LinearWithLoRA_obj i l) = True"
| "isinstance_Linear (Module_obj i cs) = False"

fun as_Linear :: "module \<Rightarrow> Linear option" where
  \<comment> \<open>the attributes an instance of \<^verbatim>\<open>Linear\<close> has as such\<close>
  "as_Linear (Linear_obj i l) = Some l"
| "as_Linear (LinearWithLoRA_obj i l) = Some (Linear.truncate l)"
| "as_Linear (Module_obj i cs) = None"

fun str_in :: "string \<Rightarrow> string \<Rightarrow> bool" where
  \<comment> \<open>\<^verbatim>\<open>replace_name in name\<close>: \<open>r\<close> occurs in the string as a contiguous block\<close>
  "str_in r [] = (r = [])"
| "str_in r (c # cs) = (take (length r) (c # cs) = r \<or> str_in r cs)"

fun named_modules :: "string \<Rightarrow> module \<Rightarrow> (string \<times> module) list"
  and named_children :: "string \<Rightarrow> (string \<times> module) list \<Rightarrow> (string \<times> module) list" where
  \<comment> \<open>\<^verbatim>\<open>model.named_modules()\<close>: every object with its dotted name, a parent before its
     children. The loop below replaces only the child it has just been handed, so the
     list is that of the graph at the start.\<close>
  "named_modules prefix (Linear_obj i l) = [(prefix, Linear_obj i l)]"
| "named_modules prefix (LinearWithLoRA_obj i l) = [(prefix, LinearWithLoRA_obj i l)]"
| "named_modules prefix (Module_obj i cs) = (prefix, Module_obj i cs) # named_children prefix cs"
| "named_children prefix [] = []"
| "named_children prefix ((name, sub) # rest) =
     named_modules (prefix @ (if prefix = [] then [] else ''.'') @ name) sub
       @ named_children prefix rest"

fun get_parent_model :: "module \<Rightarrow> nat \<Rightarrow> module option"
  and get_parent_loop :: "module \<Rightarrow> (string \<times> module) list \<Rightarrow> nat \<Rightarrow> module option" where
  \<comment> \<open>\<^verbatim>\<open>get_parent_model(parent_model, module)\<close>, the target given by its identity; the
     second function is the \<^verbatim>\<open>for\<close> loop over the children still to be visited\<close>
  "get_parent_model (Linear_obj i l) target = None"
| "get_parent_model (LinearWithLoRA_obj i l) target = None"
| "get_parent_model (Module_obj i cs) target = get_parent_loop (Module_obj i cs) cs target"
| "get_parent_loop parent_model [] target = None"
| "get_parent_loop parent_model ((name, sub_module) # rest) target =
     (if oid sub_module = target then Some parent_model
      else case get_parent_model sub_module target of
             Some parent \<Rightarrow> Some parent
           | None \<Rightarrow> get_parent_loop parent_model rest target)"

fun index_of :: "(string \<times> module) list \<Rightarrow> nat \<Rightarrow> string option" where
  \<comment> \<open>the key at \<^verbatim>\<open>list(parent._modules.values()).index(module)\<close>; \<^verbatim>\<open>None\<close> where
     \<^verbatim>\<open>index\<close> raises\<close>
  "index_of [] target = None"
| "index_of ((name, sub) # rest) target =
     (if oid sub = target then Some name else index_of rest target)"

fun dict_set :: "(string \<times> module) list \<Rightarrow> string \<Rightarrow> module \<Rightarrow> (string \<times> module) list" where
  \<comment> \<open>\<^verbatim>\<open>_modules[key] = v\<close>\<close>
  "dict_set [] key v = [(key, v)]"
| "dict_set ((name, sub) # rest) key v =
     (if name = key then (name, v) # rest else (name, sub) # dict_set rest key v)"

fun setattr_module :: "module \<Rightarrow> nat \<Rightarrow> string \<Rightarrow> module \<Rightarrow> module"
  and setattr_children ::
    "(string \<times> module) list \<Rightarrow> nat \<Rightarrow> string \<Rightarrow> module \<Rightarrow> (string \<times> module) list" where
  \<comment> \<open>\<^verbatim>\<open>setattr(parent, key, v)\<close> as the graph under \<open>model\<close> sees it: the object whose
     identity is \<open>parent\<close> gets the new child\<close>
  "setattr_module (Linear_obj i l) parent key v = Linear_obj i l"
| "setattr_module (LinearWithLoRA_obj i l) parent key v = LinearWithLoRA_obj i l"
| "setattr_module (Module_obj i cs) parent key v =
     (if i = parent then Module_obj i (dict_set cs key v)
      else Module_obj i (setattr_children cs parent key v))"
| "setattr_children [] parent key v = []"
| "setattr_children ((name, sub) # rest) parent key v =
     (name, setattr_module sub parent key v) # setattr_children rest parent key v"

definition new_lora_layer ::
  "fresh \<Rightarrow> int \<Rightarrow> real \<Rightarrow> bool \<Rightarrow> Linear \<Rightarrow> error + LinearWithLoRA" where
  \<comment> \<open>lines 141 to 150 of \<^verbatim>\<open>switch_to_lora\<close>: the layer is constructed, then the weight
     of the module and, if quantized, its scaler are stored in it. For a quantized
     module the constructor has raised before the copy.\<close>
  "new_lora_layer fr rank lora_scaler' use_dora md =
     (case LinearWithLoRA_init fr (in_features md) (out_features md) rank lora_scaler' use_dora
             (quant md) of
        Inl e \<Rightarrow> Inl e
      | Inr lora_layer \<Rightarrow>
          if quant md then
            (case weight_scaler md of
               None \<Rightarrow> Inl AttributeError
             | Some s \<Rightarrow> Inr (lora_layer\<lparr>weight := weight md, weight_scaler := Some s\<rparr>))
          else Inr (lora_layer\<lparr>weight := weight md\<rparr>))"

text \<open>
  The rewrite takes, for every name, the identity of the layer object it would create
  there and the contents of that object's newly allocated tensors.
\<close>

definition replace_module ::
  "(string \<Rightarrow> nat \<times> fresh) \<Rightarrow> int \<Rightarrow> real \<Rightarrow> bool \<Rightarrow> module \<Rightarrow> string \<Rightarrow> module \<Rightarrow> string
     \<Rightarrow> error option \<times> module" where
  \<comment> \<open>the body of the two loops: the exception raised, if any, and the graph as it is
     left. \<^verbatim>\<open>get_parent_model\<close> returning \<^verbatim>\<open>None\<close> makes \<^verbatim>\<open>parent._modules\<close> raise.\<close>
  "replace_module env rank lora_scaler' use_dora model name md replace_name =
     (if isinstance_Linear md \<and> str_in replace_name name then
        (case as_Linear md of
           None \<Rightarrow> (None, model)
         | Some base \<Rightarrow>
        (case new_lora_layer (snd (env name)) rank lora_scaler' use_dora base of
           Inl e \<Rightarrow> (Some e, model)
         | Inr lora_layer \<Rightarrow>
        (case get_parent_model model (oid md) of
           None \<Rightarrow> (Some AttributeError, model)
         | Some parent \<Rightarrow>
        (case index_of (modules_of parent) (oid md) of
           None \<Rightarrow> (Some ValueError, model)
         | Some key \<Rightarrow>
             (None, setattr_module model (oid parent) key
                      (LinearWithLoRA_obj (fst (env name)) lora_layer))))))
      else (None, model))"

fun replace_names_loop ::
  "(string \<Rightarrow> nat \<times> fresh) \<Rightarrow> int \<Rightarrow> real \<Rightarrow> bool \<Rightarrow> module \<Rightarrow> string \<Rightarrow> module \<Rightarrow> string list
     \<Rightarrow> error option \<times> module" where
  "replace_names_loop env rank sc ud model name md [] = (None, model)"
| "replace_names_loop env rank sc ud model name md (replace_name # rest) =
     (case replace_module env rank sc ud model name md replace_name of
        (Some e, model') \<Rightarrow> (Some e, model')
      | (None, model') \<Rightarrow> replace_names_loop env rank sc ud model' name md rest)"

fun modules_loop ::
  "(string \<Rightarrow> nat \<times> fresh) \<Rightarrow> int \<Rightarrow> real \<Rightarrow> bool \<Rightarrow> module \<Rightarrow> (string \<times> module) list
     \<Rightarrow> string list \<Rightarrow> error option \<times> module" where
  "modules_loop env rank sc ud model [] replace_names = (None, model)"
| "modules_loop env rank sc ud model ((name, md) # rest) replace_names =
     (case replace_names_loop env rank sc ud model name md replace_names of
        (Some e, model') \<Rightarrow> (Some e, model')
      | (None, model') \<Rightarrow> modules_loop env rank sc ud model' rest replace_names)"

definition target_names :: "string list option \<Rightarrow> string list" where
  \<comment> \<open>\<^verbatim>\<open>if replace_names is None: replace_names = ['qkv_proj']\<close>\<close>
  "target_names replace_names = (case replace_names of None \<Rightarrow> [''qkv_proj''] | Some ns \<Rightarrow> ns)"

definition switch_to_lora ::
  "(string \<Rightarrow> nat \<times> fresh) \<Rightarrow> module \<Rightarrow> string list option \<Rightarrow> int \<Rightarrow> real \<Rightarrow> bool
     \<Rightarrow> error option \<times> module" where
  \<comment> \<open>\<^verbatim>\<open>switch_to_lora(model, replace_names, rank, lora_scaler, use_dora)\<close>\<close>
  "switch_to_lora env model replace_names rank lora_scaler' use_dora =
     modules_loop env rank lora_scaler' use_dora model (named_modules [] model)
       (target_names replace_names)"


section \<open>Well-formed graphs and the rewrite as a map over the tree\<close>















section \<open>Concrete layers and graphs\<close>

text \<open>
  A layer with one output row, two input columns and rank one, without quantization:
  what the constructor builds for these sizes once \<^verbatim>\<open>weight\<close> holds \<open>[[3, 4]]\<close> and
  training has moved \<^verbatim>\<open>weight_b\<close> away from zero. The second layer is a quantized state
  with the scaler attributes of the quantized branch; the constructor does not return
  such a layer, so it stands for one whose attributes were assigned directly.
\<close>

definition layer_plain :: LinearWithLoRA where
  "layer_plain = \<lparr>in_features = 2, out_features = 1, quant = False, weight = [[3, 4]],
     weight_scaler = None, lora_rank = 1, lora_scaler = 1, weight_a = Some [[1, 0]],
     weight_b = Some [[1]], weight_a_scaler = None, weight_b_scaler = None, m = [5],
     dora = False\<rparr>"

definition layer_quant :: LinearWithLoRA where
  "layer_quant = \<lparr>in_features = 2, out_features = 1, quant = True, weight = [[3, 4]],
     weight_scaler = Some [2], lora_rank = 1, lora_scaler = 1, weight_a = Some [[1, 0]],
     weight_b = Some [[1]], weight_a_scaler = Some [1], weight_b_scaler = Some [1], m = [5],
     dora = False\<rparr>"




text \<open>
  A model with one attention block holding two base layers, and two supplies of new
  objects for the names in it: the tensors of a new layer hold what the memory held.
\<close>

definition model_example :: module where
  "model_example = Module_obj 0
     [(''attn'', Module_obj 1
         [(''qkv_proj'', Linear_obj 2 \<lparr>in_features = 2, out_features = 1, quant = False,
              weight = [[3, 4]], weight_scaler = None\<rparr>),
          (''o_proj'', Linear_obj 3 \<lparr>in_features = 1, out_features = 2, quant = False,
              weight = [[1], [2]], weight_scaler = None\<rparr>)])]"

definition env_first :: "string \<Rightarrow> nat \<times> fresh" where
  "env_first name =
     (if name = ''attn.o_proj''
      then (11, \<lparr>new_weight = [[0], [0]], new_weight_scaler = [1, 1], new_weight_a = [[1]]\<rparr>)
      else (10, \<lparr>new_weight = [[1, 0]], new_weight_scaler = [1],
                 new_weight_a = [[1, 0]]\<rparr>))"


definition layer_installed :: LinearWithLoRA where
  "layer_installed = \<lparr>in_features = 2, out_features = 1, quant = False, weight = [[3, 4]],
     weight_scaler = None, lora_rank = 1, lora_scaler = 32, weight_a = Some [[1, 0]],
     weight_b = Some [[0]], weight_a_scaler = None, weight_b_scaler = None, m = [1],
     dora = False\<rparr>"


definition model_with :: "nat \<Rightarrow> LinearWithLoRA \<Rightarrow> module" where
  "model_with i l = Module_obj 0
     [(''attn'', Module_obj 1
         [(''qkv_proj'', LinearWithLoRA_obj i l),
          (''o_proj'', Linear_obj 3 \<lparr>in_features = 1, out_features = 2, quant = False,
              weight = [[1], [2]], weight_scaler = None\<rparr>)])]"


section \<open>Facts about the tensor operations\<close>

lemmas tensor_defs = mul_unsqueeze_def dot_def ncols_def col_def matmul_def add_t_def
  scalar_mul_def norm2_def norm_dim1_def div_rows_def mul_rows_def linear_def zeros_def

lemmas layer_defs = quantize_weight_def quantize_weight_same_def weight_quantizer_def
  weight_a_quantizer_def weight_b_quantizer_def lora_weight_of_def apply_dora_def

lemma norm2_scale: "norm2 (map (\<lambda>v. k * v) row) = \<bar>k\<bar> * norm2 row"
proof -
  have "sum_list (map (\<lambda>v. (k * v) * (k * v)) row) = (k * k) * sum_list (map (\<lambda>v. v * v) row)"
    by (induction row) (simp_all add: algebra_simps)
  then show ?thesis
    by (simp add: norm2_def o_def real_sqrt_mult)
qed

lemma sumsq_nonneg: "0 \<le> sum_list (map (\<lambda>v. v * v) (row :: real list))"
  by (induction row) simp_all

lemma norm2_nonneg: "0 \<le> norm2 row"
  by (simp add: norm2_def sumsq_nonneg)

lemma sumsq_zero_iff:
  "sum_list (map (\<lambda>v. v * v) (row :: real list)) = 0 \<longleftrightarrow> (\<forall>v\<in>set row. v = 0)"
proof (induction row)
  case Nil
  show ?case by simp
next
  case (Cons a row)
  have "a * a + sum_list (map (\<lambda>v. v * v) row) = 0
          \<longleftrightarrow> a * a = 0 \<and> sum_list (map (\<lambda>v. v * v) row) = 0"
    using sumsq_nonneg [of row] by (intro add_nonneg_eq_0_iff) simp_all
  with Cons show ?case by simp
qed

lemma norm2_zero_iff: "norm2 row = 0 \<longleftrightarrow> (\<forall>v\<in>set row. v = 0)"
  by (simp add: norm2_def sumsq_zero_iff)

lemma mul_unsqueeze_nth:
  "length q = length w \<Longrightarrow> i < length w \<Longrightarrow>
   mul_unsqueeze w q ! i = map (\<lambda>v. v * q ! i) (w ! i)"
  by (simp add: mul_unsqueeze_def)

text \<open>
  Rescaling unit rows: when every row of \<open>num\<close> is divided by its own norm and then
  multiplied by a non-negative factor, the factor is the norm of the result.
\<close>

lemma rescaled_row_norms:
  "length ms = length num \<Longrightarrow> \<forall>s\<in>set ms. 0 \<le> s \<Longrightarrow> \<forall>row\<in>set num. norm2 row \<noteq> 0 \<Longrightarrow>
   norm_dim1 (mul_rows ms (div_rows num (norm_dim1 num))) = ms"
proof (induction ms num rule: list_induct2)
  case Nil
  then show ?case by (simp add: norm_dim1_def mul_rows_def div_rows_def)
next
  case (Cons s ms row num)
  have "norm2 (map (\<lambda>v. s * v) (map (\<lambda>v. v / norm2 row) row)) = s"
  proof -
    have "map (\<lambda>v. s * v) (map (\<lambda>v. v / norm2 row) row) = map (\<lambda>v. (s / norm2 row) * v) row"
      by simp
    then show ?thesis using Cons.prems norm2_nonneg [of row]
      by (simp only: norm2_scale) (simp add: abs_mult)
  qed
  with Cons show ?case
    by (simp add: norm_dim1_def mul_rows_def div_rows_def)
qed

lemma apply_dora_norms:
  assumes "length w0 = length w" "length lw = length w" "m L = norm_dim1 w0"
    and "\<forall>row\<in>set (add_t w (scalar_mul (lora_scaler L) lw)). \<exists>v\<in>set row. v \<noteq> 0"
  shows "norm_dim1 (apply_dora L w lw) = m L"
proof -
  let ?num = "add_t w (scalar_mul (lora_scaler L) lw)"
  have len: "length (m L) = length ?num"
    using assms by (simp add: norm_dim1_def add_t_def scalar_mul_def)
  have pos: "\<forall>s\<in>set (m L). 0 \<le> s"
    using assms(3) by (auto simp: norm_dim1_def norm2_nonneg)
  have nz: "\<forall>row\<in>set ?num. norm2 row \<noteq> 0"
    using assms(4) by (simp add: norm2_zero_iff)
  show ?thesis
    unfolding apply_dora_def Let_def by (rule rescaled_row_norms [OF len pos nz])
qed









section \<open>Construction\<close>

text \<open>
  C8. Constructing a layer with rank 0 fails at once with the division-by-zero error
  of \<^verbatim>\<open>lora_scaler / lora_rank\<close>; no layer is returned. With at least one input
  feature, no other rank gives this error.
\<close>

theorem init_rank_zero:
  "LinearWithLoRA_init fr i o' 0 scaler use_dora q = Inl ZeroDivisionError \<and>
   (LinearWithLoRA_init fr (Suc i) o' rank scaler use_dora q = Inl ZeroDivisionError)
     = (rank = 0)"
  by (simp add: LinearWithLoRA_init_def)





section \<open>Effective weights and the forward pass\<close>

text \<open>
  C9. \<^verbatim>\<open>_quantize_weight\<close> returns the stored tensor with row \<open>i\<close> multiplied by entry
  \<open>i\<close> of the scaler when the layer is quantized and the scaler is present, and the
  stored tensor itself when the layer is not quantized. \<^verbatim>\<open>forward\<close> passes the base
  weight, \<^verbatim>\<open>weight_a\<close> and \<^verbatim>\<open>weight_b\<close> through this one function, each with its own
  scaler.
\<close>

theorem quantize_weight_rule:
  "(quant L \<longrightarrow> quantize_weight L w (Some q) = mul_unsqueeze w q) \<and>
   (length q = length w \<longrightarrow> length (mul_unsqueeze w q) = length w \<and>
      (\<forall>i<length w. mul_unsqueeze w q ! i = map (\<lambda>v. v * q ! i) (w ! i))) \<and>
   (\<not> quant L \<longrightarrow> quantize_weight L w quantizer = w) \<and>
   (weight_a L = Some a \<and> weight_b L = Some b \<longrightarrow>
      fst (forward L x) =
        linear x (let w' = quantize_weight L (weight L) (weight_scaler L);
                      lw = matmul (quantize_weight L b (weight_b_scaler L))
                                  (quantize_weight L a (weight_a_scaler L))
                  in if dora L then apply_dora L w' lw else add_t w' lw))"
  by (simp add: mul_unsqueeze_nth quantize_weight_def forward_def Let_def lora_weight_of_def
        weight_quantizer_def weight_a_quantizer_def weight_b_quantizer_def)
     (simp add: mul_unsqueeze_def)

theorem quantize_weight_rule_witness:
  "quant layer_quant \<and> quantize_weight layer_quant [[3, 4]] (Some [2]) = [[6, 8]] \<and>
   length [2 :: real] = length [[3, 4 :: real]] \<and>
   \<not> quant layer_plain \<and> quantize_weight layer_plain [[3, 4]] (Some [2]) = [[3, 4]] \<and>
   weight_a layer_quant = Some [[1, 0]] \<and> weight_b layer_quant = Some [[1]] \<and>
   fst (forward layer_quant [[1, 1]]) = [[15]]"
  using quantize_weight_rule [of layer_quant "[[3, 4]]" "[2]" "Some [2]" "[[1, 0]]" "[[1]]" "[[1, 1]]"]
    quantize_weight_rule [of layer_plain "[[3, 4]]" "[2]" "Some [2]" "[[1, 0]]" "[[1]]" "[[1, 1]]"]
  by (simp add: layer_quant_def layer_plain_def forward_def layer_defs tensor_defs)

text \<open>
  C5. With the adapter factors present and DoRA off, \<^verbatim>\<open>forward\<close> multiplies the input by
  the transpose of (effective base weight + effective \<^verbatim>\<open>weight_b\<close> times effective
  \<^verbatim>\<open>weight_a\<close>); \<^verbatim>\<open>lora_scaler\<close> does not enter: any other value of it gives the same
  output. For a layer with positive rank the factors are present unless a merge has
  removed them.
\<close>

theorem forward_additive_unscaled:
  assumes "0 < lora_rank L" "weight_a L = Some a" "weight_b L = Some b" "\<not> dora L"
  shows "fst (forward L x) =
           linear x (add_t (quantize_weight L (weight L) (weight_scaler L))
                      (matmul (quantize_weight L b (weight_b_scaler L))
                              (quantize_weight L a (weight_a_scaler L))))
         \<and> fst (forward (L\<lparr>lora_scaler := s\<rparr>) x) = fst (forward L x)"
  using assms by (simp add: forward_def Let_def layer_defs)

theorem forward_additive_unscaled_witness:
  "0 < lora_rank layer_plain \<and> weight_a layer_plain = Some [[1, 0]] \<and>
   weight_b layer_plain = Some [[1]] \<and> \<not> dora layer_plain \<and>
   fst (forward layer_plain [[1, 1]]) = [[8]] \<and>
   fst (forward (layer_plain\<lparr>lora_scaler := 7\<rparr>) [[1, 1]]) = [[8]]"
  using forward_additive_unscaled [of layer_plain "[[1, 0]]" "[[1]]" "[[1, 1]]" 7]
  by (simp add: layer_plain_def layer_defs tensor_defs)

text \<open>
  C2. \<^verbatim>\<open>forward\<close> is claimed to leave the stored base weight as it was. Without
  quantization and without DoRA it does not: the local \<^verbatim>\<open>weight\<close> is the stored tensor
  itself, and \<^verbatim>\<open>weight += lora_weight\<close> adds the low-rank product into it. One call on
  the layer above turns the stored row \<open>[3, 4]\<close> into \<open>[4, 4]\<close>.
\<close>

theorem forward_changes_stored_weight:
  "fst (forward layer_plain [[1, 1]]) = [[8]] \<and>
   weight layer_plain = [[3, 4]] \<and>
   weight (snd (forward layer_plain [[1, 1]])) = [[4, 4]]"
  by (simp add: forward_def layer_plain_def layer_defs tensor_defs)


section \<open>Merging\<close>

lemma merge_lora_noop: "\<not> 0 < lora_rank L \<Longrightarrow> merge_lora L = (None, L)"
  by (simp add: merge_lora_def)

lemma merge_lora_ok_rank:
  assumes "fst (merge_lora L) = None"
  shows "\<not> 0 < lora_rank (snd (merge_lora L))"
proof (cases "0 < lora_rank L")
  case False
  then show ?thesis by (simp add: merge_lora_def)
next
  case True
  show ?thesis
  proof (cases "weight_a L")
    case None
    with True assms show ?thesis by (simp add: merge_lora_def)
  next
    case a: (Some a)
    show ?thesis
    proof (cases "weight_b L")
      case None
      with True a assms show ?thesis by (simp add: merge_lora_def)
    next
      case b: (Some b)
      show ?thesis
      proof (cases "weight_a_scaler L = None \<or> weight_b_scaler L = None")
        case True
        with \<open>0 < lora_rank L\<close> a b assms show ?thesis
          by (simp add: merge_lora_def Let_def split: if_splits)
      next
        case False
        then obtain p q where "weight_a_scaler L = Some p" "weight_b_scaler L = Some q"
          by auto
        with \<open>0 < lora_rank L\<close> a b show ?thesis
          by (simp add: merge_lora_def Let_def)
      qed
    qed
  qed
qed

lemma merge_lora_dora_weight:
  assumes "0 < lora_rank L" "weight_a L = Some a" "weight_b L = Some b"
  shows "weight (snd (merge_lora (enable_dora L)))
           = apply_dora L (weight L) (lora_weight_of L a b)"
proof -
  have "lora_weight_of (enable_dora L) a b = lora_weight_of L a b"
    by (simp add: enable_dora_def layer_defs)
  moreover have "apply_dora (enable_dora L) = apply_dora L"
    by (simp add: enable_dora_def apply_dora_def fun_eq_iff)
  ultimately show ?thesis using assms
    by (simp add: merge_lora_def Let_def enable_dora_def)
qed

text \<open>
  C10. \<^verbatim>\<open>merge_lora\<close> on a layer whose rank is 0 raises nothing and changes nothing; in
  particular a second call after a merge that returned normally is a no-op.
\<close>

theorem merge_lora_rank_zero_noop:
  "(lora_rank L = 0 \<longrightarrow> merge_lora L = (None, L)) \<and>
   (fst (merge_lora L) = None \<longrightarrow>
      merge_lora (snd (merge_lora L)) = (None, snd (merge_lora L)))"
  using merge_lora_noop [of L] merge_lora_noop [OF merge_lora_ok_rank, of L] by simp

theorem merge_lora_rank_zero_noop_witness:
  "(lora_rank (layer_plain\<lparr>lora_rank := 0\<rparr>) = 0 \<and>
    merge_lora (layer_plain\<lparr>lora_rank := 0\<rparr>) = (None, layer_plain\<lparr>lora_rank := 0\<rparr>)) \<and>
   (fst (merge_lora layer_quant) = None \<and>
    merge_lora (snd (merge_lora layer_quant)) = (None, snd (merge_lora layer_quant)))"
  using merge_lora_rank_zero_noop [of "layer_plain\<lparr>lora_rank := 0\<rparr>"]
    merge_lora_rank_zero_noop [of layer_quant]
  by (simp add: merge_lora_def layer_quant_def layer_defs tensor_defs)

text \<open>
  C1. A merge is claimed to return with rank 0 and the factors gone, and to leave the
  output of \<^verbatim>\<open>forward\<close> as it was, for every combination of the flags. Without
  quantization the scaler attributes of the factors were never created, so
  \<^verbatim>\<open>delattr(self, "weight_a_scaler")\<close> raises: the call ends in \<^verbatim>\<open>AttributeError\<close> after
  the weight has been updated and the factors deleted, and the rank stays 1. On the
  quantized state, whose attributes were assigned directly, the call returns, but the
  low-rank product has been added to the stored weight before its scaler is applied,
  and the output moves from 15 to 16.
\<close>

theorem merge_lora_breaks_claim:
  "merge_lora layer_plain =
     (Some AttributeError,
      layer_plain\<lparr>weight := [[4, 4]], weight_a := None, weight_b := None\<rparr>) \<and>
   lora_rank (snd (merge_lora layer_plain)) = 1 \<and>
   fst (merge_lora layer_quant) = None \<and>
   fst (forward layer_quant [[1, 1]]) = [[15]] \<and>
   fst (forward (snd (merge_lora layer_quant)) [[1, 1]]) = [[16]]"
  by (simp add: merge_lora_def forward_def layer_plain_def layer_quant_def layer_defs
      tensor_defs)

text \<open>
  C6. The DoRA transform returns a tensor whose row norms are the entries of \<open>m\<close>,
  whatever the low-rank product is, when \<open>m\<close> holds row norms (as the constructor
  computes it) and no row of \<open>weight + lora_scaler * lora_weight\<close> is all zero. The
  weight that \<^verbatim>\<open>enable_dora\<close> followed by \<^verbatim>\<open>merge_lora\<close> stores is such a result.
\<close>

theorem dora_row_norms:
  assumes "has_shape (out_features L) (in_features L) w"
    and "has_shape (out_features L) (in_features L) lw"
    and "length w0 = out_features L" and "m L = norm_dim1 w0"
    and "\<forall>row\<in>set (add_t w (scalar_mul (lora_scaler L) lw)). \<exists>v\<in>set row. v \<noteq> 0"
  shows "norm_dim1 (apply_dora L w lw) = m L \<and>
         (0 < lora_rank L \<and> weight_a L = Some a \<and> weight_b L = Some b \<and>
          weight L = w \<and> lora_weight_of L a b = lw \<longrightarrow>
          norm_dim1 (weight (snd (merge_lora (enable_dora L)))) = m L)"
proof -
  have n: "norm_dim1 (apply_dora L w lw) = m L"
    using assms by (intro apply_dora_norms [where ?w0.0 = w0]) (simp_all add: has_shape_def)
  then show ?thesis
    by (auto simp: merge_lora_dora_weight)
qed

theorem dora_row_norms_witness:
  "has_shape (out_features layer_plain) (in_features layer_plain) [[3, 4]] \<and>
   has_shape (out_features layer_plain) (in_features layer_plain) [[1, 0]] \<and>
   length [[3, 4 :: real]] = out_features layer_plain \<and>
   m layer_plain = norm_dim1 [[3, 4]] \<and>
   add_t [[3, 4]] (scalar_mul (lora_scaler layer_plain) [[1, 0]]) = [[4, 4]] \<and>
   norm_dim1 (apply_dora layer_plain [[3, 4]] [[1, 0]]) = [5] \<and>
   0 < lora_rank layer_plain \<and> weight_a layer_plain = Some [[1, 0]] \<and>
   weight_b layer_plain = Some [[1]] \<and> weight layer_plain = [[3, 4]] \<and>
   lora_weight_of layer_plain [[1, 0]] [[1]] = [[1, 0]] \<and>
   norm_dim1 (weight (snd (merge_lora (enable_dora layer_plain)))) = [5]"
  using dora_row_norms [of layer_plain "[[3, 4]]" "[[1, 0]]" "[[3, 4]]" "[[1, 0]]" "[[1]]"]
  by (simp add: layer_plain_def has_shape_def layer_defs mul_unsqueeze_def dot_def ncols_def
      col_def matmul_def add_t_def scalar_mul_def norm2_def norm_dim1_def)

section \<open>The graph rewrite\<close>

lemmas rewrite_defs = switch_to_lora_def target_names_def replace_module_def new_lora_layer_def
  LinearWithLoRA_init_def Linear_init_def Linear.extend_def LinearWithLoRA.fields_def
  Linear.truncate_def norm_dim1_def norm2_def zeros_def

text \<open>
  C7. The layer that \<^verbatim>\<open>switch_to_lora\<close> installs is claimed to hold in \<open>m\<close> the row
  norms of the frozen weight copied into it. The constructor computes \<open>m\<close> from the
  weight it has just allocated, and the copy that follows does not compute it again:
  for the base layer with the row \<open>[3, 4]\<close>, of norm 5, and an allocated row
  \<open>[1, 0]\<close>, the installed layer has the weight \<open>[[3, 4]]\<close> and \<open>m = [1]\<close>.
\<close>

theorem installed_magnitude_is_stale:
  "switch_to_lora env_first model_example None 1 32 False = (None, model_with 10 layer_installed) \<and>
   weight layer_installed = [[3, 4]] \<and>
   norm_dim1 (weight layer_installed) = [5] \<and>
   m layer_installed = [1]"
  by (simp add: rewrite_defs model_example_def model_with_def env_first_def
      layer_installed_def)

subsection \<open>Finding the parent and replacing the child\<close>















subsection \<open>The loop body and the inner loop\<close>








subsection \<open>Replacements and identities\<close>










subsection \<open>The outer loop\<close>






subsection \<open>The replacements of a whole traversal\<close>











subsection \<open>One pass\<close>





subsection \<open>A second pass\<close>















end
